theory Spec2Isabelle
  imports Main
begin

section \<open>JavaScript values\<close>

text \<open>
  The values that flow through the client (\<open>client\<close>, \<open>createMethodCaller\<close>) and the
  server (\<open>Kito.wrapHandler\<close>, \<open>Kito.use\<close>).  Strings are byte strings (UTF-8); numbers
  are the integer-valued ones.  \<open>JBlob\<close> is a value for which \<open>instanceof Blob\<close> holds,
  \<open>JBuffer\<close> an ArrayBuffer, \<open>JFormData\<close> a FormData with its entries in append order.
  \<open>JObj\<close> is a plain object, given by its own enumerable string-keyed properties in the
  order \<open>Object.entries\<close> reports them (keys pairwise distinct).  Function values are
  not values of this type: the callbacks of the configuration and the derive and
  resolve functions are HOL functions.
\<close>

datatype jsval =
    JUndefined
  | JNull
  | JBool bool
  | JNum int
  | JStr string
  | JBlob string
  | JBuffer string
  | JArr "jsval list"
  | JObj "(string \<times> jsval) list"
  | JFormData "(string \<times> jsval) list"

type_synonym props = "(string \<times> jsval) list"

text \<open>A promise that has settled: \<open>Inl reason\<close> is a rejection, \<open>Inr v\<close> a fulfilment.\<close>

type_synonym 'a promise = "jsval + 'a"

subsection \<open>Operators of the language\<close>

definition typeof :: "jsval \<Rightarrow> string" where
  "typeof v =
     (case v of
        JUndefined \<Rightarrow> ''undefined''
      | JBool b \<Rightarrow> ''boolean''
      | JNum n \<Rightarrow> ''number''
      | JStr s \<Rightarrow> ''string''
      | _ \<Rightarrow> ''object'')"

definition truthy :: "jsval \<Rightarrow> bool" where
  "truthy v =
     (case v of
        JUndefined \<Rightarrow> False
      | JNull \<Rightarrow> False
      | JBool b \<Rightarrow> b
      | JNum n \<Rightarrow> n \<noteq> 0
      | JStr s \<Rightarrow> s \<noteq> []
      | _ \<Rightarrow> True)"

definition isArray :: "jsval \<Rightarrow> bool" where
  "isArray v = (case v of JArr vs \<Rightarrow> True | _ \<Rightarrow> False)"

definition array_elems :: "jsval \<Rightarrow> jsval list" where
  "array_elems v = (case v of JArr vs \<Rightarrow> vs | _ \<Rightarrow> [])"

fun join :: "string \<Rightarrow> string list \<Rightarrow> string" where
  "join sep [] = []"
| "join sep [x] = x"
| "join sep (x # y # zs) = x @ sep @ join sep (y # zs)"

fun nat_digits :: "nat \<Rightarrow> string" where
  "nat_digits n =
     (if n < 10 then [''0123456789'' ! n]
      else nat_digits (n div 10) @ [''0123456789'' ! (n mod 10)])"

declare nat_digits.simps [simp del]

definition int_digits :: "int \<Rightarrow> string" where
  "int_digits n = (if n < 0 then CHR ''-'' # nat_digits (nat (- n)) else nat_digits (nat n))"

text \<open>\<open>String(v)\<close>.  An array is its elements joined by commas, null and undefined
  elements as the empty string.\<close>

primrec js_String :: "jsval \<Rightarrow> string" where
  "js_String JUndefined = ''undefined''"
| "js_String JNull = ''null''"
| "js_String (JBool b) = (if b then ''true'' else ''false'')"
| "js_String (JNum n) = int_digits n"
| "js_String (JStr s) = s"
| "js_String (JBlob b) = ''[object Blob]''"
| "js_String (JBuffer b) = ''[object ArrayBuffer]''"
| "js_String (JArr vs) =
     join '','' (map2 (\<lambda>v s. if v = JUndefined \<or> v = JNull then [] else s) vs (map js_String vs))"
| "js_String (JObj kvs) = ''[object Object]''"
| "js_String (JFormData kvs) = ''[object FormData]''"

text \<open>\<open>JSON.stringify\<close>: the quoting of a string, then the text of a value
  (\<open>None\<close> where \<open>JSON.stringify\<close> gives undefined).\<close>

definition json_escape :: "char \<Rightarrow> string" where
  "json_escape c =
     (if c = CHR 0x22 then [CHR 0x5C, CHR 0x22]
      else if c = CHR 0x5C then [CHR 0x5C, CHR 0x5C]
      else if c = CHR 0x08 then [CHR 0x5C, CHR ''b'']
      else if c = CHR 0x09 then [CHR 0x5C, CHR ''t'']
      else if c = CHR 0x0A then [CHR 0x5C, CHR ''n'']
      else if c = CHR 0x0C then [CHR 0x5C, CHR ''f'']
      else if c = CHR 0x0D then [CHR 0x5C, CHR ''r'']
      else if (of_char c :: nat) < 32 then
        [CHR 0x5C, CHR ''u'', CHR ''0'', CHR ''0'',
         ''0123456789abcdef'' ! (of_char c div 16), ''0123456789abcdef'' ! (of_char c mod 16)]
      else [c])"

definition json_quote :: "string \<Rightarrow> string" where
  "json_quote s = [CHR 0x22] @ concat (map json_escape s) @ [CHR 0x22]"

primrec json_text :: "jsval \<Rightarrow> string option" where
  "json_text JUndefined = None"
| "json_text JNull = Some ''null''"
| "json_text (JBool b) = Some (if b then ''true'' else ''false'')"
| "json_text (JNum n) = Some (int_digits n)"
| "json_text (JStr s) = Some (json_quote s)"
| "json_text (JBlob b) = Some ''{}''"
| "json_text (JBuffer b) = Some ''{}''"
| "json_text (JArr vs) =
     Some (''['' @ join '','' (map (\<lambda>t. case t of None \<Rightarrow> ''null'' | Some s \<Rightarrow> s)
                                   (map json_text vs)) @ '']'')"
| "json_text (JObj kvs) =
     Some (''{'' @ join '','' (concat (map (\<lambda>(k, t). case t of None \<Rightarrow> []
                                                       | Some s \<Rightarrow> [json_quote k @ '':'' @ s])
                                          (map (map_prod id json_text) kvs))) @ ''}'')"
| "json_text (JFormData kvs) = Some ''{}''"

definition JSON_stringify :: "jsval \<Rightarrow> jsval" where
  "JSON_stringify v = (case json_text v of None \<Rightarrow> JUndefined | Some s \<Rightarrow> JStr s)"

subsection \<open>Objects\<close>

text \<open>\<open>o[k]\<close> on a plain object; every other value has none of the properties the
  code reads (\<open>query\<close>, \<open>headers\<close>, \<open>fetch\<close>, \<open>body\<close>, \<open>content-type\<close>).\<close>

definition obj_get :: "props \<Rightarrow> string \<Rightarrow> jsval" where
  "obj_get kvs k = (case map_of kvs k of None \<Rightarrow> JUndefined | Some v \<Rightarrow> v)"

definition get_prop :: "jsval \<Rightarrow> string \<Rightarrow> jsval" where
  "get_prop v k = (case v of JObj kvs \<Rightarrow> obj_get kvs k | _ \<Rightarrow> JUndefined)"

text \<open>\<open>v?.k\<close>\<close>

definition opt_prop :: "jsval \<Rightarrow> string \<Rightarrow> jsval" where
  "opt_prop v k = (if v = JUndefined \<or> v = JNull then JUndefined else get_prop v k)"

text \<open>\<open>o[k] = v\<close>: an existing key keeps its place, a new key goes last.\<close>

fun obj_set :: "props \<Rightarrow> string \<Rightarrow> jsval \<Rightarrow> props" where
  "obj_set [] k v = [(k, v)]"
| "obj_set ((k', v') # kvs) k v =
     (if k' = k then (k, v) # kvs else (k', v') # obj_set kvs k v)"

text \<open>The own enumerable string-keyed properties of a value: what
  \<open>Object.entries(v)\<close> lists (for a value other than null and undefined, where it
  throws) and what an object spread \<open>{...v}\<close> and \<open>Object.assign\<close> copy (nothing,
  for null and undefined).\<close>

definition own_props :: "jsval \<Rightarrow> props" where
  "own_props v =
     (case v of
        JObj kvs \<Rightarrow> kvs
      | JArr vs \<Rightarrow> zip (map nat_digits [0..<length vs]) vs
      | JStr s \<Rightarrow> zip (map nat_digits [0..<length s]) (map (\<lambda>c. JStr [c]) s)
      | _ \<Rightarrow> [])"

fun assign_all :: "props \<Rightarrow> props \<Rightarrow> props" where
  "assign_all target [] = target"
| "assign_all target ((k, v) # rest) = assign_all (obj_set target k v) rest"

text \<open>\<open>Object.assign(target, source)\<close> and \<open>{...target, ...source}\<close>\<close>

definition Object_assign :: "props \<Rightarrow> jsval \<Rightarrow> props" where
  "Object_assign target source = assign_all target (own_props source)"

section \<open>The client\<close>

subsection \<open>Helper functions\<close>

definition isFile :: "jsval \<Rightarrow> bool" where
  "isFile v = (case v of JBlob b \<Rightarrow> True | _ \<Rightarrow> False)"

text \<open>The \<open>for (const key in obj)\<close> loop of \<open>hasFiles\<close>, with its two early returns.
  The loop also visits inherited enumerable properties; those of a Blob, an ArrayBuffer
  or a FormData are numbers, strings and methods, none of them a Blob, so the loop runs
  over the own properties here.\<close>

fun hasFiles_loop :: "props \<Rightarrow> bool" where
  "hasFiles_loop [] = False"
| "hasFiles_loop ((key, v) # rest) =
     (if isFile v then True
      else if isArray v \<and> list_ex isFile (array_elems v) then True
      else hasFiles_loop rest)"

definition hasFiles :: "jsval \<Rightarrow> bool" where
  "hasFiles obj =
     (if \<not> truthy obj \<or> typeof obj \<noteq> ''object'' then False
      else hasFiles_loop (own_props obj))"

text \<open>The configuration's \<open>headers\<close>: a value (undefined when absent), or a provider
  function, given by what its call settles to.\<close>

datatype headers_source = HeadersValue jsval | HeadersProvider "jsval promise"

definition resolveHeaders :: "headers_source \<Rightarrow> jsval promise" where
  "resolveHeaders headers =
     (case headers of
        HeadersValue h \<Rightarrow> if \<not> truthy h then Inr (JObj []) else Inr h
      | HeadersProvider called \<Rightarrow>
          (case called of
             Inl reason \<Rightarrow> Inl reason
           | Inr h \<Rightarrow> Inr (if truthy h then h else JObj [])))"

text \<open>\<open>URLSearchParams\<close>: the list of its pairs; \<open>append\<close> adds one at the end;
  \<open>toString\<close> is the application/x-www-form-urlencoded serialisation.\<close>

type_synonym search_params = "(string \<times> string) list"

definition params_append :: "search_params \<Rightarrow> string \<Rightarrow> string \<Rightarrow> search_params" where
  "params_append params k v = params @ [(k, v)]"

definition form_byte :: "char \<Rightarrow> string" where
  "form_byte c =
     (if c = CHR '' '' then ''+''
      else if c \<in> set ''abcdefghijklmnopqrstuvwxyzABCDEFGHIJKLMNOPQRSTUVWXYZ0123456789*-._''
        then [c]
      else [CHR ''%'', ''0123456789ABCDEF'' ! (of_char c div 16),
            ''0123456789ABCDEF'' ! (of_char c mod 16)])"

definition form_urlencode :: "string \<Rightarrow> string" where
  "form_urlencode s = concat (map form_byte s)"

definition params_toString :: "search_params \<Rightarrow> string" where
  "params_toString params =
     join ''&'' (map (\<lambda>(k, v). form_urlencode k @ ''='' @ form_urlencode v) params)"

fun append_each :: "string \<Rightarrow> jsval list \<Rightarrow> search_params \<Rightarrow> search_params" where
  "append_each key [] params = params"
| "append_each key (v # vs) params = append_each key vs (params_append params key (js_String v))"

fun buildQueryString_loop :: "props \<Rightarrow> search_params \<Rightarrow> search_params" where
  "buildQueryString_loop [] params = params"
| "buildQueryString_loop ((key, v) # rest) params =
     (if v = JUndefined \<or> v = JNull then buildQueryString_loop rest params
      else if isArray v then
        buildQueryString_loop rest (append_each key (array_elems v) params)
      else if typeof v = ''object'' then
        buildQueryString_loop rest (params_append params key (js_String (JSON_stringify v)))
      else buildQueryString_loop rest (params_append params key (js_String v)))"

definition buildQueryString :: "jsval \<Rightarrow> string" where
  "buildQueryString query =
     (let params = buildQueryString_loop (own_props query) [];
          str = params_toString params
      in if str \<noteq> [] then ''?'' @ str else [])"

subsection \<open>Responses and result envelopes\<close>

text \<open>A \<open>Response\<close> as the client uses it: its status, its \<open>headers.get\<close>, and what
  each of its body readers settles to.\<close>

record response =
  resp_status :: int
  resp_headers :: "string \<Rightarrow> string option"
  resp_json :: "jsval promise"
  resp_arrayBuffer :: "jsval promise"
  resp_formData :: "props promise"
  resp_text :: "string promise"

text \<open>A parsed body: a value, or the response object itself.\<close>

datatype dval = Val jsval | Raw response

text \<open>\<open>response.headers.get("content-type")?.split(";")[0]\<close>\<close>

definition contentType_of :: "response \<Rightarrow> string option" where
  "contentType_of response =
     (case resp_headers response ''content-type'' of
        None \<Rightarrow> None
      | Some h \<Rightarrow> Some (takeWhile (\<lambda>c. c \<noteq> CHR '';'') h))"

definition parseResponse :: "response \<Rightarrow> dval promise" where
  "parseResponse response =
     (let contentType = contentType_of response in
      if contentType = Some ''application/json'' then
        (case resp_json response of Inl reason \<Rightarrow> Inl reason | Inr v \<Rightarrow> Inr (Val v))
      else if contentType = Some ''application/octet-stream'' then
        (case resp_arrayBuffer response of Inl reason \<Rightarrow> Inl reason | Inr v \<Rightarrow> Inr (Val v))
      else if contentType = Some ''multipart/form-data'' then
        (case resp_formData response of
           Inl reason \<Rightarrow> Inl reason
         | Inr formData \<Rightarrow> Inr (Val (JObj (assign_all [] formData))))
      else if contentType = Some ''text/event-stream'' then Inr (Raw response)
      else (case resp_text response of Inl reason \<Rightarrow> Inl reason | Inr s \<Rightarrow> Inr (Val (JStr s))))"

text \<open>The \<open>error\<close> field of an envelope: \<open>null\<close>, or \<open>{status, value}\<close>.\<close>

datatype error_value = ErrNull | ErrObj int dval

record envelope =
  env_data :: dval
  env_error :: error_value
  env_status :: int
  env_response :: response
  env_headers :: "string \<Rightarrow> string option"

subsection \<open>The method caller\<close>

text \<open>\<open>Client.Config\<close>.  A hook is the function from its arguments to what its call
  settles to; \<open>None\<close> is a field left out.\<close>

record client_config =
  cfg_fetch :: "(string \<Rightarrow> props \<Rightarrow> response promise) option"
  cfg_headers :: headers_source
  cfg_onRequest :: "(string \<Rightarrow> props \<Rightarrow> jsval promise) option"
  cfg_onResponse :: "(response \<Rightarrow> dval promise) option"
  cfg_fetchOptions :: jsval

definition toUpperCase :: "string \<Rightarrow> string" where
  "toUpperCase s =
     map (\<lambda>c. if 97 \<le> (of_char c :: nat) \<and> (of_char c :: nat) \<le> 122
               then char_of (of_char c - 32 :: nat) else c) s"

text \<open>\<open>formData.append(key, v)\<close>: a Blob is kept, anything else becomes a string.\<close>

definition formData_append :: "props \<Rightarrow> string \<Rightarrow> jsval \<Rightarrow> props" where
  "formData_append formData key v = formData @ [(key, if isFile v then v else JStr (js_String v))]"

fun formData_append_each :: "string \<Rightarrow> jsval list \<Rightarrow> props \<Rightarrow> props" where
  "formData_append_each key [] formData = formData"
| "formData_append_each key (v # vs) formData =
     formData_append_each key vs (formData_append formData key v)"

fun formData_loop :: "props \<Rightarrow> props \<Rightarrow> props" where
  "formData_loop [] formData = formData"
| "formData_loop ((key, v) # rest) formData =
     (if isArray v then formData_loop rest (formData_append_each key (array_elems v) formData)
      else formData_loop rest (formData_append formData key v))"

text \<open>The "Handle body" block: from the init built so far to the init with the body.\<close>

definition encode_body :: "bool \<Rightarrow> jsval \<Rightarrow> props \<Rightarrow> props" where
  "encode_body isGetOrHead body init =
     (if body \<noteq> JUndefined \<and> body \<noteq> JNull \<and> \<not> isGetOrHead then
        if hasFiles body then
          obj_set init ''body'' (JFormData (formData_loop (own_props body) []))
        else if typeof body = ''object'' then
          obj_set
            (obj_set init ''headers''
               (JObj (obj_set (own_props (obj_get init ''headers''))
                         ''content-type'' (JStr ''application/json''))))
            ''body'' (JSON_stringify body)
        else
          obj_set
            (obj_set init ''headers''
               (JObj (obj_set (own_props (obj_get init ''headers''))
                         ''content-type'' (JStr ''text/plain''))))
            ''body'' (JStr (js_String body))
      else init)"

text \<open>The "Resolve headers" and "Build request init" blocks: the init before the body
  is handled, given the resolved configuration headers and the options in force.\<close>

definition base_init :: "client_config \<Rightarrow> string \<Rightarrow> jsval \<Rightarrow> jsval \<Rightarrow> props" where
  "base_init config method configHeaders actualOptions =
     (let requestHeaders =
            Object_assign (own_props configHeaders) (opt_prop actualOptions ''headers'')
      in Object_assign
           (Object_assign
              [(''method'', JStr (toUpperCase method)), (''headers'', JObj requestHeaders)]
              (cfg_fetchOptions config))
           (opt_prop actualOptions ''fetch''))"

text \<open>The init as it stands before the \<open>onRequest\<close> hook.\<close>

definition build_init :: "client_config \<Rightarrow> string \<Rightarrow> jsval \<Rightarrow> jsval \<Rightarrow> jsval \<Rightarrow> props" where
  "build_init config method configHeaders bodyOrOptions options =
     (let isGetOrHead = (method = ''get'' \<or> method = ''head'');
          actualOptions = (if isGetOrHead then bodyOrOptions else options);
          body = (if isGetOrHead then JUndefined else bodyOrOptions)
      in encode_body isGetOrHead body (base_init config method configHeaders actualOptions))"

text \<open>Everything up to the call of the network primitive: the URL and the init it is
  called with, or the rejection of the header provider or of the \<open>onRequest\<close> hook.
  A truthy result of the hook is spread over the init, \<open>{...init, ...modified}\<close>.\<close>

definition build_request ::
  "string \<Rightarrow> client_config \<Rightarrow> string list \<Rightarrow> string \<Rightarrow> jsval \<Rightarrow> jsval \<Rightarrow> (string \<times> props) promise"
where
  "build_request domain config paths method bodyOrOptions options =
     (let path = ''/'' @ join ''/'' paths;
          isGetOrHead = (method = ''get'' \<or> method = ''head'');
          actualOptions = (if isGetOrHead then bodyOrOptions else options);
          url = (if truthy (opt_prop actualOptions ''query'')
                 then domain @ path @ buildQueryString (opt_prop actualOptions ''query'')
                 else domain @ path)
      in case resolveHeaders (cfg_headers config) of
           Inl reason \<Rightarrow> Inl reason
         | Inr configHeaders \<Rightarrow>
             (let init = build_init config method configHeaders bodyOrOptions options
              in case cfg_onRequest config of
                   None \<Rightarrow> Inr (url, init)
                 | Some onRequest \<Rightarrow>
                     (case onRequest path init of
                        Inl reason \<Rightarrow> Inl reason
                      | Inr modified \<Rightarrow>
                          Inr (url, if truthy modified then Object_assign init modified
                                    else init))))"

text \<open>The \<open>onResponse\<close> hook: the data it leaves, \<open>null\<close> when it leaves none.\<close>

definition run_onResponse :: "client_config \<Rightarrow> response \<Rightarrow> dval promise" where
  "run_onResponse config response =
     (case cfg_onResponse config of
        None \<Rightarrow> Inr (Val JNull)
      | Some onResponse \<Rightarrow>
          (case onResponse response of
             Inl reason \<Rightarrow> Inl reason
           | Inr result \<Rightarrow>
               Inr (if result \<noteq> Val JUndefined \<and> result \<noteq> Val JNull then result
                    else Val JNull)))"

text \<open>"Handle error status" and the returned object.\<close>

definition classify :: "response \<Rightarrow> dval \<Rightarrow> envelope" where
  "classify response data =
     (if resp_status response \<ge> 300 \<or> resp_status response < 200 then
        \<lparr>env_data = Val JNull,
         env_error = ErrObj (resp_status response) data,
         env_status = resp_status response,
         env_response = response,
         env_headers = resp_headers response\<rparr>
      else
        \<lparr>env_data = data,
         env_error = ErrNull,
         env_status = resp_status response,
         env_response = response,
         env_headers = resp_headers response\<rparr>)"

definition build_envelope :: "client_config \<Rightarrow> response \<Rightarrow> envelope promise" where
  "build_envelope config response =
     (case run_onResponse config response of
        Inl reason \<Rightarrow> Inl reason
      | Inr data \<Rightarrow>
          (case (if data = Val JNull then parseResponse response else Inr data) of
             Inl reason \<Rightarrow> Inl reason
           | Inr data' \<Rightarrow> Inr (classify response data')))"

text \<open>The asynchronous function \<open>createMethodCaller\<close> returns, applied to its two
  arguments; \<open>global_fetch\<close> is the platform's \<open>fetch\<close>.\<close>

definition createMethodCaller ::
  "(string \<Rightarrow> props \<Rightarrow> response promise) \<Rightarrow> string \<Rightarrow> client_config \<Rightarrow> string list \<Rightarrow> string
     \<Rightarrow> jsval \<Rightarrow> jsval \<Rightarrow> envelope promise"
where
  "createMethodCaller global_fetch domain config paths method bodyOrOptions options =
     (case build_request domain config paths method bodyOrOptions options of
        Inl reason \<Rightarrow> Inl reason
      | Inr (url, init) \<Rightarrow>
          (let fetcher = (case cfg_fetch config of None \<Rightarrow> global_fetch | Some f \<Rightarrow> f)
           in case fetcher url init of
                Inl reason \<Rightarrow> Inl reason
              | Inr response \<Rightarrow> build_envelope config response))"

subsection \<open>The client factory\<close>

definition LOCAL_HOSTS :: "string list" where
  "LOCAL_HOSTS = [''localhost'', ''127.0.0.1'', ''0.0.0.0'']"

text \<open>\<open>s.includes(sub)\<close>\<close>

fun includes_str :: "string \<Rightarrow> string \<Rightarrow> bool" where
  "includes_str [] sub = (sub = [])"
| "includes_str (c # cs) sub = (take (length sub) (c # cs) = sub \<or> includes_str cs sub)"

text \<open>The domain \<open>client\<close> hands to \<open>createProxy\<close>.\<close>

definition client_domain :: "string \<Rightarrow> string" where
  "client_domain domain =
     (let domain1 =
            (if \<not> includes_str domain ''://'' then
               (let isLocal = list_ex (\<lambda>host. includes_str domain host) LOCAL_HOSTS
                in (if isLocal then ''http://'' else ''https://'') @ domain)
             else domain)
      in if domain1 \<noteq> [] \<and> last domain1 = CHR ''/'' then butlast domain1 else domain1)"

section \<open>The server\<close>

text \<open>The runtime state of a \<open>Kito\<close> instance.  A derive or resolve function is the
  function from the context it is called with to what its call settles to; what such a
  function writes into the context or the store in place, rather than returns, is not
  represented.  \<open>decorators\<close> is \<open>internalServer.decorators\<close>, \<open>None\<close> until
  \<open>decorate\<close> is first called.\<close>

type_synonym context_fn = "props \<Rightarrow> jsval promise"

record kito =
  singletonStore :: props
  deriveFunctions :: "context_fn list"
  resolveFunctions :: "context_fn list"
  decorators :: "props option"

definition kito_new :: kito where
  "kito_new = \<lparr>singletonStore = [], deriveFunctions = [], resolveFunctions = [], decorators = None\<rparr>"

definition kito_state :: "kito \<Rightarrow> string \<Rightarrow> jsval \<Rightarrow> kito" where
  "kito_state app key v = app\<lparr>singletonStore := obj_set (singletonStore app) key v\<rparr>"

definition kito_decorate :: "kito \<Rightarrow> string \<Rightarrow> jsval \<Rightarrow> kito" where
  "kito_decorate app key v =
     app\<lparr>decorators :=
           Some (obj_set (case decorators app of None \<Rightarrow> [] | Some d \<Rightarrow> d) key v)\<rparr>"



text \<open>One \<open>for (const derive of deriveFns)\<close> loop of the wrapped handler; the loop over
  the resolve functions is the same loop.\<close>

fun run_context_fns :: "context_fn list \<Rightarrow> props \<Rightarrow> props promise" where
  "run_context_fns [] ctx = Inr ctx"
| "run_context_fns (fn # fns) ctx =
     (case fn ctx of
        Inl reason \<Rightarrow> Inl reason
      | Inr derived \<Rightarrow>
          run_context_fns fns
            (if truthy derived \<and> typeof derived = ''object'' then Object_assign ctx derived
             else ctx))"

text \<open>"Inject store" and "Inject decorators": \<open>ctx.store = store\<close>, then
  \<open>Object.assign(ctx, decorators)\<close>.\<close>

definition seed_context :: "props \<Rightarrow> props \<Rightarrow> props \<Rightarrow> props" where
  "seed_context store decos ctx = Object_assign (obj_set ctx ''store'' (JObj store)) (JObj decos)"

text \<open>The context the wrapped handler passes to the route's handler.\<close>

definition build_context ::
  "props \<Rightarrow> context_fn list \<Rightarrow> context_fn list \<Rightarrow> props \<Rightarrow> props \<Rightarrow> props promise"
where
  "build_context store deriveFns resolveFns decos ctx =
     (case run_context_fns deriveFns (seed_context store decos ctx) of
        Inl reason \<Rightarrow> Inl reason
      | Inr ctx' \<Rightarrow> run_context_fns resolveFns ctx')"

text \<open>What the wrapped handler writes through \<open>ctx.res\<close> for a handler's result.\<close>

datatype written = NotWritten | ResJson jsval | ResSend string

definition send_result :: "jsval \<Rightarrow> written" where
  "send_result result =
     (if result \<noteq> JUndefined then
        (if typeof result = ''object'' \<and> result \<noteq> JNull then ResJson result
         else ResSend (js_String result))
      else NotWritten)"

text \<open>The decorators object the closure of a wrapped handler holds.
  \<open>internalServer.decorators || {}\<close> is evaluated once, when \<open>wrapHandler\<close> is called at
  the registration of the route.  If the instance has a decorators object then, the
  closure holds that very object, which later \<open>decorate\<close> calls fill in place: when a
  request arrives it is the instance's decorators object as it is then.  If the instance
  has none then, the closure holds an empty object of its own, which nothing ever fills.
  \<open>registered\<close> is the instance when the route is registered, \<open>app\<close> the instance when
  the request arrives.\<close>

definition captured_decorators :: "kito \<Rightarrow> kito \<Rightarrow> props" where
  "captured_decorators registered app =
     (case decorators registered of
        None \<Rightarrow> []
      | Some at_registration \<Rightarrow>
          (case decorators app of None \<Rightarrow> at_registration | Some on_arrival \<Rightarrow> on_arrival))"

text \<open>\<open>wrapHandler registered handler\<close> is the wrapped handler of a route registered on
  the instance \<open>registered\<close>; it is applied to the instance as it is when the request
  arrives and to the context the transport delivers.  The closure holds the instance's
  own store and lists, so these are read from \<open>app\<close>.  The result is the context as the
  route's handler received it and what was written, or the rejection of a derive function,
  a resolve function or the handler.\<close>

definition wrapHandler ::
  "kito \<Rightarrow> (props \<Rightarrow> jsval promise) \<Rightarrow> kito \<Rightarrow> props \<Rightarrow> (props \<times> written) promise"
where
  "wrapHandler registered handler app ctx =
     (let store = singletonStore app;
          deriveFns = deriveFunctions app;
          resolveFns = resolveFunctions app;
          decos = captured_decorators registered app
      in case build_context store deriveFns resolveFns decos ctx of
           Inl reason \<Rightarrow> Inl reason
         | Inr ctx' \<Rightarrow>
             (case handler ctx' of
                Inl reason \<Rightarrow> Inl reason
              | Inr result \<Rightarrow> Inr (ctx', send_result result)))"

text \<open>\<open>use(plugin)\<close>: the instance after the call.\<close>

definition kito_use :: "kito \<Rightarrow> kito \<Rightarrow> kito" where
  "kito_use app plugin =
     app\<lparr>singletonStore := Object_assign (singletonStore app) (JObj (singletonStore plugin)),
         deriveFunctions := deriveFunctions app @ deriveFunctions plugin,
         resolveFunctions := resolveFunctions app @ resolveFunctions plugin\<rparr>"

section \<open>The specification's wording, as definitions\<close>

text \<open>The query suffix as the specification words it: an array value repeats the key
  once per element, an object value is JSON-encoded into a single key, a scalar value is
  stringified, null and undefined values are left out; the pairs are then written as a
  query string, and no pair gives no suffix.\<close>

definition spec_query_entry :: "string \<times> jsval \<Rightarrow> search_params" where
  "spec_query_entry kv =
     (case kv of (k, v) \<Rightarrow>
        (case v of
           JUndefined \<Rightarrow> []
         | JNull \<Rightarrow> []
         | JArr vs \<Rightarrow> map (\<lambda>e. (k, js_String e)) vs
         | JBool b \<Rightarrow> [(k, js_String v)]
         | JNum n \<Rightarrow> [(k, js_String v)]
         | JStr s \<Rightarrow> [(k, js_String v)]
         | _ \<Rightarrow> [(k, js_String (JSON_stringify v))]))"

definition spec_query_suffix :: "jsval \<Rightarrow> string" where
  "spec_query_suffix query =
     (let pairs = concat (map spec_query_entry (own_props query))
      in if pairs = [] then [] else ''?'' @ params_toString pairs)"

text \<open>The host of a domain string that has no scheme: the text before the first
  \<open>:\<close> or \<open>/\<close>.\<close>

definition spec_host :: "string \<Rightarrow> string" where
  "spec_host domain = takeWhile (\<lambda>c. c \<noteq> CHR '':'' \<and> c \<noteq> CHR ''/'') domain"

text \<open>The response content-type dispatch table, and the parse it selects.\<close>

datatype body_reader = Structured | Binary | KeyValueMap | Passthrough | AsText

definition spec_dispatch_table :: "(string \<times> body_reader) list" where
  "spec_dispatch_table =
     [(''application/json'', Structured),
      (''application/octet-stream'', Binary),
      (''multipart/form-data'', KeyValueMap),
      (''text/event-stream'', Passthrough)]"

definition spec_reader :: "string option \<Rightarrow> body_reader" where
  "spec_reader contentType =
     (case contentType of
        None \<Rightarrow> AsText
      | Some t \<Rightarrow> (case map_of spec_dispatch_table t of None \<Rightarrow> AsText | Some r \<Rightarrow> r))"

definition spec_parse :: "response \<Rightarrow> dval promise" where
  "spec_parse response =
     (case spec_reader (contentType_of response) of
        Structured \<Rightarrow> map_sum id Val (resp_json response)
      | Binary \<Rightarrow> map_sum id Val (resp_arrayBuffer response)
      | KeyValueMap \<Rightarrow>
          map_sum id (\<lambda>entries. Val (JObj (assign_all [] entries))) (resp_formData response)
      | Passthrough \<Rightarrow> Inr (Raw response)
      | AsText \<Rightarrow> map_sum id (\<lambda>s. Val (JStr s)) (resp_text response))"

text \<open>A multipart form with one entry per key or array element: a Blob as it is,
  anything else as its string.\<close>

definition spec_form_value :: "jsval \<Rightarrow> jsval" where
  "spec_form_value v = (if isFile v then v else JStr (js_String v))"

definition spec_form_entries :: "jsval \<Rightarrow> props" where
  "spec_form_entries body =
     concat (map (\<lambda>(k, v). case v of
                               JArr vs \<Rightarrow> map (\<lambda>e. (k, spec_form_value e)) vs
                             | _ \<Rightarrow> [(k, spec_form_value v)])
                 (own_props body))"

text \<open>A binary attachment at the top level or inside an array, read narrowly: the
  value of one of the body's own properties is a Blob, or is an array one of whose
  elements is a Blob.\<close>

definition spec_has_attachment :: "jsval \<Rightarrow> bool" where
  "spec_has_attachment body =
     (\<exists>(k, v) \<in> set (own_props body). isFile v \<or> (\<exists>e \<in> set (array_elems v). isFile e))"

text \<open>A binary attachment anywhere: some leaf of the value, at any depth, is a Blob.\<close>

primrec has_blob_leaf :: "jsval \<Rightarrow> bool" where
  "has_blob_leaf JUndefined = False"
| "has_blob_leaf JNull = False"
| "has_blob_leaf (JBool b) = False"
| "has_blob_leaf (JNum n) = False"
| "has_blob_leaf (JStr s) = False"
| "has_blob_leaf (JBlob b) = True"
| "has_blob_leaf (JBuffer b) = False"
| "has_blob_leaf (JArr vs) = list_ex (\<lambda>found. found) (map has_blob_leaf vs)"
| "has_blob_leaf (JObj kvs) =
     list_ex (\<lambda>found. found) (map snd (map (map_prod id has_blob_leaf) kvs))"
| "has_blob_leaf (JFormData kvs) = False"

section \<open>Example inputs\<close>

text \<open>A configuration with every field left out, and a network primitive that is never
  reached by the examples that configure their own.\<close>

definition plain_config :: client_config where
  "plain_config =
     \<lparr>cfg_fetch = None, cfg_headers = HeadersValue JUndefined, cfg_onRequest = None,
      cfg_onResponse = None, cfg_fetchOptions = JUndefined\<rparr>"

definition offline_fetch :: "string \<Rightarrow> props \<Rightarrow> response promise" where
  "offline_fetch url init = Inl (JStr ''fetch failed'')"

definition query_options :: jsval where
  "query_options = JObj [(''query'', JObj [(''limit'', JStr ''10''), (''offset'', JStr ''0'')])]"

text \<open>A response with a JSON body, a configuration whose network primitive answers
  with a given response, and one whose \<open>onResponse\<close> hook returns a value of its own.\<close>

definition json_response :: "int \<Rightarrow> jsval \<Rightarrow> response" where
  "json_response st v =
     \<lparr>resp_status = st,
      resp_headers = [''content-type'' \<mapsto> ''application/json; charset=utf-8''],
      resp_json = Inr v,
      resp_arrayBuffer = Inr (JBuffer (js_String (JSON_stringify v))),
      resp_formData = Inl (JStr ''TypeError''),
      resp_text = Inr (js_String (JSON_stringify v))\<rparr>"

definition served_config :: "response \<Rightarrow> client_config" where
  "served_config r = plain_config\<lparr>cfg_fetch := Some (\<lambda>url init. Inr r)\<rparr>"

definition hooked_config :: "response \<Rightarrow> client_config" where
  "hooked_config r =
     (served_config r)\<lparr>cfg_onResponse := Some (\<lambda>response. Inr (Val (JStr ''hooked'')))\<rparr>"

definition user_response :: response where
  "user_response = json_response 200 (JObj [(''id'', JStr ''1'')])"

definition not_found_response :: response where
  "not_found_response = json_response 404 (JObj [(''message'', JStr ''Not found'')])"

definition null_response :: response where
  "null_response = json_response 200 JNull"

definition not_found_envelope :: envelope where
  "not_found_envelope =
     \<lparr>env_data = Val JNull,
      env_error = ErrObj 404 (Val (JObj [(''message'', JStr ''Not found'')])),
      env_status = 404,
      env_response = not_found_response,
      env_headers = resp_headers not_found_response\<rparr>"

text \<open>Bodies with a Blob: one the shallow test finds, two it does not.\<close>

definition upload_body :: jsval where
  "upload_body = JObj [(''title'', JStr ''cat''), (''files'', JArr [JBlob ''png'', JBlob ''jpg''])]"

definition nested_array_body :: jsval where
  "nested_array_body = JObj [(''files'', JArr [JArr [JBlob ''png'']])]"

definition nested_object_body :: jsval where
  "nested_object_body = JObj [(''profile'', JObj [(''avatar'', JBlob ''png'')])]"

text \<open>Options and headers that carry a body and content types of their own.\<close>

definition override_options :: jsval where
  "override_options =
     JObj [(''fetch'', JObj [(''body'', JStr ''x'')]),
           (''headers'', JObj [(''content-type'', JStr ''text/plain'')])]"

definition xml_headers :: jsval where
  "xml_headers =
     JObj [(''content-type'', JStr ''text/xml''), (''authorization'', JStr ''Bearer token'')]"

definition csv_options :: jsval where
  "csv_options = JObj [(''headers'', JObj [(''content-type'', JStr ''text/csv'')])]"

definition capital_options :: jsval where
  "capital_options = JObj [(''headers'', JObj [(''Content-Type'', JStr ''text/xml'')])]"





definition role_handler :: "props \<Rightarrow> jsval promise" where
  "role_handler ctx = Inr (obj_get ctx ''role'')"


definition host_app :: kito where
  "host_app = kito_state kito_new ''counter'' (JNum 0)"

definition sessions_plugin :: kito where
  "sessions_plugin = kito_state kito_new ''sessions'' (JObj [])"

definition counter_plugin :: kito where
  "counter_plugin = kito_state kito_new ''counter'' (JNum 5)"

text \<open>An instance with a decorator, on which a route is registered, and the same
  instance after two derive and two resolve registrations.\<close>

definition decorated_app :: kito where
  "decorated_app = kito_decorate host_app ''db'' (JStr ''pg'')"


section \<open>Objects: assignment and lookup\<close>

lemma map_of_obj_set: "map_of (obj_set kvs k v) = (map_of kvs)(k \<mapsto> v)"
  by (induction kvs) (auto simp: fun_eq_iff)

lemma obj_get_obj_set: "obj_get (obj_set kvs k v) k' = (if k' = k then v else obj_get kvs k')"
  by (simp add: obj_get_def map_of_obj_set)

lemma keys_obj_set: "fst ` set (obj_set kvs k v) = insert k (fst ` set kvs)"
  by (simp add: dom_map_of_conv_image_fst [symmetric] map_of_obj_set)

lemma keys_assign_all: "fst ` set (assign_all target es) = fst ` set target \<union> fst ` set es"
proof (induction es arbitrary: target)
  case Nil
  then show ?case by simp
next
  case (Cons e es)
  obtain k v where e: "e = (k, v)" by (cases e)
  show ?case by (auto simp: e Cons.IH keys_obj_set)
qed

lemma keys_Object_assign:
  "fst ` set (Object_assign target source) = fst ` set target \<union> fst ` set (own_props source)"
  by (simp add: Object_assign_def keys_assign_all)

lemma map_of_assign_all_other:
  "k \<notin> fst ` set es \<Longrightarrow> map_of (assign_all target es) k = map_of target k"
proof (induction es arbitrary: target)
  case Nil
  then show ?case by simp
next
  case (Cons e es)
  obtain k' v where e: "e = (k', v)" by (cases e)
  from Cons.prems have "k \<notin> fst ` set es" and "k \<noteq> k'"
    by (auto simp: e)
  then show ?case
    by (simp add: e Cons.IH map_of_obj_set)
qed

lemma map_of_Object_assign_other:
  "k \<notin> fst ` set (own_props source) \<Longrightarrow> map_of (Object_assign target source) k = map_of target k"
  by (simp add: Object_assign_def map_of_assign_all_other)

text \<open>Assigning the properties of a well-formed object: its values win, every other
  key keeps the target's value.\<close>

lemma obj_get_assign_all:
  assumes "distinct (map fst es)"
  shows "obj_get (assign_all target es) k =
           (if k \<in> fst ` set es then obj_get es k else obj_get target k)"
  using assms
proof (induction es arbitrary: target)
  case Nil
  then show ?case by simp
next
  case (Cons e es)
  obtain k' v where e: "e = (k', v)" by (cases e)
  from Cons.prems have d: "distinct (map fst es)" and n: "k' \<notin> fst ` set es"
    by (simp_all add: e)
  have ih: "obj_get (assign_all (obj_set target k' v) es) k =
              (if k \<in> fst ` set es then obj_get es k else obj_get (obj_set target k' v) k)"
    by (rule Cons.IH [OF d])
  have "obj_get (assign_all target (e # es)) k = obj_get (assign_all (obj_set target k' v) es) k"
    by (simp add: e)
  also have "\<dots> = (if k \<in> fst ` set (e # es) then obj_get (e # es) k else obj_get target k)"
    unfolding ih using n by (auto simp: e obj_get_def map_of_obj_set)
  finally show ?case .
qed

section \<open>The request URL\<close>

lemma append_each_eq: "append_each key vs params = params @ map (\<lambda>e. (key, js_String e)) vs"
  by (induction vs arbitrary: params) (simp_all add: params_append_def)

lemma buildQueryString_loop_eq:
  "buildQueryString_loop es params = params @ concat (map spec_query_entry es)"
proof (induction es arbitrary: params)
  case Nil
  then show ?case by simp
next
  case (Cons e es)
  obtain key v where e: "e = (key, v)" by (cases e)
  show ?case
    by (cases v)
       (simp_all add: e Cons.IH spec_query_entry_def isArray_def array_elems_def typeof_def
          append_each_eq params_append_def)
qed

lemma join_Cons_nonempty: "x \<noteq> [] \<Longrightarrow> join sep (x # xs) \<noteq> []"
  by (cases xs) simp_all

lemma params_toString_empty: "params_toString ps = [] \<longleftrightarrow> ps = []"
proof (cases ps)
  case Nil
  then show ?thesis by (simp add: params_toString_def)
next
  case (Cons p ps')
  obtain k v where "p = (k, v)" by (cases p)
  with Cons show ?thesis
    by (simp add: params_toString_def join_Cons_nonempty)
qed

lemma own_props_falsy: "\<not> truthy q \<Longrightarrow> own_props q = []"
  by (cases q) (simp_all add: truthy_def own_props_def)

lemma buildQueryString_spec: "buildQueryString q = spec_query_suffix q"
  by (simp add: buildQueryString_def spec_query_suffix_def buildQueryString_loop_eq
      params_toString_empty Let_def)

lemma spec_query_suffix_falsy: "\<not> truthy q \<Longrightarrow> spec_query_suffix q = []"
  by (simp add: spec_query_suffix_def own_props_falsy)

text \<open>
  Claim C3.  Whenever the caller reaches the network primitive, the URL it passes is the
  domain, a slash, the segments joined by slashes, and the query suffix of the options'
  \<open>query\<close> as the specification words it (array values repeat the key, object values
  are JSON-encoded, scalars are stringified, null and undefined are left out); the
  options are the first argument for \<open>get\<close> and \<open>head\<close> and the second for every other
  verb.  The call then is the primitive applied to that URL, followed by the envelope.
\<close>

theorem request_url:
  assumes "build_request domain config paths method bodyOrOptions options = Inr (url, init)"
  shows "url = domain @ ''/'' @ join ''/'' paths @
           spec_query_suffix
             (opt_prop (if method = ''get'' \<or> method = ''head'' then bodyOrOptions else options)
                ''query'') \<and>
         createMethodCaller global_fetch domain config paths method bodyOrOptions options =
           (case (case cfg_fetch config of None \<Rightarrow> global_fetch | Some f \<Rightarrow> f) url init of
              Inl reason \<Rightarrow> Inl reason
            | Inr response \<Rightarrow> build_envelope config response)"
proof
  show "url = domain @ ''/'' @ join ''/'' paths @
           spec_query_suffix
             (opt_prop (if method = ''get'' \<or> method = ''head'' then bodyOrOptions else options)
                ''query'')"
    using assms
    by (auto simp: build_request_def Let_def buildQueryString_spec spec_query_suffix_falsy
        split: sum.splits option.splits if_splits)
  show "createMethodCaller global_fetch domain config paths method bodyOrOptions options =
           (case (case cfg_fetch config of None \<Rightarrow> global_fetch | Some f \<Rightarrow> f) url init of
              Inl reason \<Rightarrow> Inl reason
            | Inr response \<Rightarrow> build_envelope config response)"
    using assms by (simp add: createMethodCaller_def)
qed

theorem request_url_witness:
  "build_request ''http://localhost:3000'' plain_config [''users''] ''get'' query_options JUndefined =
     Inr (''http://localhost:3000/users?limit=10&offset=0'',
          [(''method'', JStr ''GET''), (''headers'', JObj [])]) \<and>
   ''http://localhost:3000/users?limit=10&offset=0'' =
     ''http://localhost:3000'' @ ''/'' @ join ''/'' [''users''] @
       spec_query_suffix (opt_prop query_options ''query'') \<and>
   createMethodCaller offline_fetch ''http://localhost:3000'' plain_config [''users''] ''get''
       query_options JUndefined =
     Inl (JStr ''fetch failed'')"
proof -
  have h: "build_request ''http://localhost:3000'' plain_config [''users''] ''get'' query_options
             JUndefined =
           Inr (''http://localhost:3000/users?limit=10&offset=0'',
                [(''method'', JStr ''GET''), (''headers'', JObj [])])"
    by code_simp
  from request_url [OF h, of offline_fetch] show ?thesis
    using h by (simp add: plain_config_def offline_fetch_def)
qed

section \<open>Domain normalisation\<close>

text \<open>
  Claim C6.  The claim has http:// prepended exactly when the host is one of the
  recognised local hosts.  The code tests whether the whole domain string contains one of
  the names: for the domain \<open>notlocalhost.com\<close>, whose host is none of the three, it
  prepends http://.
\<close>

theorem client_domain_substring_test:
  "client_domain ''notlocalhost.com'' = ''http://notlocalhost.com'' \<and>
   spec_host ''notlocalhost.com'' \<notin> set LOCAL_HOSTS"
  by (simp add: client_domain_def LOCAL_HOSTS_def spec_host_def)

section \<open>The result envelope\<close>

lemmas call_defs =
  createMethodCaller_def build_request_def build_init_def base_init_def encode_body_def
  served_config_def plain_config_def resolveHeaders_def truthy_def opt_prop_def get_prop_def
  Object_assign_def own_props_def build_envelope_def run_onResponse_def classify_def
  json_response_def obj_get_def

lemma parseResponse_spec: "parseResponse response = spec_parse response"
  by (auto simp: parseResponse_def spec_parse_def spec_reader_def spec_dispatch_table_def Let_def
      split: option.splits sum.splits)

lemma build_envelope_cases:
  assumes "build_envelope config response = Inr env"
  obtains hooked parsed where
    "run_onResponse config response = Inr hooked"
    "if hooked = Val JNull then parseResponse response = Inr parsed else parsed = hooked"
    "env = classify response parsed"
  using assms by (auto simp: build_envelope_def split: sum.splits if_splits)

lemma createMethodCaller_cases:
  assumes "createMethodCaller global_fetch domain config paths method bodyOrOptions options = Inr env"
  obtains url init response where
    "build_request domain config paths method bodyOrOptions options = Inr (url, init)"
    "(case cfg_fetch config of None \<Rightarrow> global_fetch | Some f \<Rightarrow> f) url init = Inr response"
    "build_envelope config response = Inr env"
  using assms by (auto simp: createMethodCaller_def Let_def split: sum.splits)

lemma classify_response: "env_response (classify response parsed) = response"
  by (simp add: classify_def)

lemma not_found_call:
  "createMethodCaller offline_fetch ''http://localhost:3000'' (served_config not_found_response)
      [''users'', ''nonexistent''] ''get'' JUndefined JUndefined = Inr not_found_envelope"
  by (simp add: call_defs not_found_envelope_def not_found_response_def parseResponse_def
      contentType_of_def)

text \<open>
  Claim C1, as amended.  For every client call that returns an envelope, let the parsed
  value be what the \<open>onResponse\<close> hook returned when a hook is configured and returned
  something other than null and undefined, and otherwise the parse the content type
  selects (the text of the content-type header before the first semicolon:
  application/json gives the structured decode, application/octet-stream the raw binary,
  multipart/form-data the key/value map, text/event-stream the response object itself,
  anything else the text).  If the status is in [200,299] the envelope has error null
  and data equal to the parsed value; otherwise data is null and error is the status
  with the parsed value.
\<close>

theorem envelope_of_status:
  assumes "createMethodCaller global_fetch domain config paths method bodyOrOptions options = Inr env"
  shows "\<exists>hooked parsed.
           run_onResponse config (env_response env) = Inr hooked \<and>
           (if hooked = Val JNull then spec_parse (env_response env) = Inr parsed
            else parsed = hooked) \<and>
           (if 200 \<le> resp_status (env_response env) \<and> resp_status (env_response env) \<le> 299
            then env_error env = ErrNull \<and> env_data env = parsed
            else env_data env = Val JNull \<and>
                 env_error env = ErrObj (resp_status (env_response env)) parsed)"
proof -
  from assms obtain url init response where
    env: "build_envelope config response = Inr env"
    by (rule createMethodCaller_cases)
  from env obtain hooked parsed where
    h: "run_onResponse config response = Inr hooked" and
    p: "if hooked = Val JNull then parseResponse response = Inr parsed else parsed = hooked" and
    c: "env = classify response parsed"
    by (rule build_envelope_cases)
  have r: "env_response env = response"
    by (simp add: c classify_response)
  have "if 200 \<le> resp_status response \<and> resp_status response \<le> 299
        then env_error env = ErrNull \<and> env_data env = parsed
        else env_data env = Val JNull \<and> env_error env = ErrObj (resp_status response) parsed"
    by (auto simp: c classify_def)
  with h p show ?thesis
    unfolding r parseResponse_spec by blast
qed

theorem envelope_of_status_witness:
  "createMethodCaller offline_fetch ''http://localhost:3000'' (served_config not_found_response)
      [''users'', ''nonexistent''] ''get'' JUndefined JUndefined = Inr not_found_envelope \<and>
   run_onResponse (served_config not_found_response) (env_response not_found_envelope) =
     Inr (Val JNull) \<and>
   spec_parse (env_response not_found_envelope) =
     Inr (Val (JObj [(''message'', JStr ''Not found'')])) \<and>
   env_data not_found_envelope = Val JNull \<and>
   env_error not_found_envelope = ErrObj 404 (Val (JObj [(''message'', JStr ''Not found'')]))"
proof -
  note h = not_found_call
  have r: "env_response not_found_envelope = not_found_response"
    by (simp add: not_found_envelope_def)
  have hook: "run_onResponse (served_config not_found_response) not_found_response =
                Inr (Val JNull)"
    by (simp add: run_onResponse_def served_config_def plain_config_def)
  have parse: "spec_parse not_found_response =
                 Inr (Val (JObj [(''message'', JStr ''Not found'')]))"
    by (simp add: spec_parse_def spec_reader_def spec_dispatch_table_def contentType_of_def
        not_found_response_def json_response_def)
  have st: "resp_status not_found_response = 404"
    by (simp add: not_found_response_def json_response_def)
  from envelope_of_status [OF h] obtain hooked parsed where
    a: "run_onResponse (served_config not_found_response) not_found_response = Inr hooked" and
    b: "if hooked = Val JNull then spec_parse not_found_response = Inr parsed
        else parsed = hooked" and
    c: "env_data not_found_envelope = Val JNull \<and>
        env_error not_found_envelope = ErrObj 404 parsed"
    unfolding r st by auto
  from a hook have "hooked = Val JNull" by simp
  with b parse have "parsed = Val (JObj [(''message'', JStr ''Not found'')])" by simp
  with c h hook parse show ?thesis
    unfolding r by simp
qed

text \<open>
  Claim C1 as stated fails where an \<open>onResponse\<close> hook returns a value: the response
  has status 200 and content type application/json, its structured decode is the object
  with \<open>id\<close>, and the envelope's data is the hook's string.
\<close>

theorem envelope_hook_counterexample:
  "createMethodCaller offline_fetch ''http://localhost:3000'' (hooked_config user_response)
      [''users''] ''get'' JUndefined JUndefined =
     Inr \<lparr>env_data = Val (JStr ''hooked''), env_error = ErrNull, env_status = 200,
          env_response = user_response, env_headers = resp_headers user_response\<rparr> \<and>
   resp_status user_response = 200 \<and>
   contentType_of user_response = Some ''application/json'' \<and>
   resp_json user_response = Inr (JObj [(''id'', JStr ''1'')]) \<and>
   parseResponse user_response = Inr (Val (JObj [(''id'', JStr ''1'')])) \<and>
   Val (JStr ''hooked'') \<noteq> Val (JObj [(''id'', JStr ''1'')])"
  by (simp add: call_defs hooked_config_def user_response_def parseResponse_def
      contentType_of_def)

text \<open>
  Claim C2, as amended.  Every envelope a client call returns carries the status, the
  response the network primitive produced, and that response's headers, on success and on
  failure alike.  Its data and error are never both non-null: error is non-null exactly
  when the status is outside [200,299], and data is then null; for a status inside,
  error is null (and data is the parsed value, which may itself be null).
\<close>

theorem envelope_shape:
  assumes "createMethodCaller global_fetch domain config paths method bodyOrOptions options = Inr env"
  shows "env_status env = resp_status (env_response env) \<and>
         env_headers env = resp_headers (env_response env) \<and>
         (\<exists>url init.
            build_request domain config paths method bodyOrOptions options = Inr (url, init) \<and>
            (case cfg_fetch config of None \<Rightarrow> global_fetch | Some f \<Rightarrow> f) url init =
              Inr (env_response env)) \<and>
         \<not> (env_data env \<noteq> Val JNull \<and> env_error env \<noteq> ErrNull) \<and>
         (env_error env \<noteq> ErrNull) = (env_status env < 200 \<or> 300 \<le> env_status env) \<and>
         (if env_status env < 200 \<or> 300 \<le> env_status env then env_data env = Val JNull
          else env_error env = ErrNull)"
proof -
  from assms obtain url init response where
    req: "build_request domain config paths method bodyOrOptions options = Inr (url, init)" and
    fet: "(case cfg_fetch config of None \<Rightarrow> global_fetch | Some f \<Rightarrow> f) url init = Inr response" and
    env: "build_envelope config response = Inr env"
    by (rule createMethodCaller_cases)
  from env obtain hooked parsed where c: "env = classify response parsed"
    by (rule build_envelope_cases)
  have r: "env_response env = response"
    by (simp add: c classify_response)
  have shape: "env_status env = resp_status response \<and> env_headers env = resp_headers response \<and>
         \<not> (env_data env \<noteq> Val JNull \<and> env_error env \<noteq> ErrNull) \<and>
         (env_error env \<noteq> ErrNull) = (env_status env < 200 \<or> 300 \<le> env_status env) \<and>
         (if env_status env < 200 \<or> 300 \<le> env_status env then env_data env = Val JNull
          else env_error env = ErrNull)"
    by (auto simp: c classify_def)
  from req fet shape show ?thesis
    unfolding r by blast
qed

theorem envelope_shape_witness:
  "createMethodCaller offline_fetch ''http://localhost:3000'' (served_config not_found_response)
      [''users'', ''nonexistent''] ''get'' JUndefined JUndefined = Inr not_found_envelope \<and>
   env_status not_found_envelope = resp_status (env_response not_found_envelope) \<and>
   env_headers not_found_envelope = resp_headers (env_response not_found_envelope) \<and>
   env_data not_found_envelope = Val JNull \<and>
   env_error not_found_envelope \<noteq> ErrNull"
proof -
  note h = not_found_call
  have st: "env_status not_found_envelope = 404"
    by (simp add: not_found_envelope_def)
  from envelope_shape [OF h] show ?thesis
    using h unfolding st by simp
qed

text \<open>
  Claim C2 as stated fails where the body parses to null: a response with status 200
  and the JSON body \<open>null\<close> gives an envelope whose data and error are both null.
\<close>

theorem envelope_null_data_counterexample:
  "createMethodCaller offline_fetch ''http://localhost:3000'' (served_config null_response)
      [''users''] ''get'' JUndefined JUndefined =
     Inr \<lparr>env_data = Val JNull, env_error = ErrNull, env_status = 200,
          env_response = null_response, env_headers = resp_headers null_response\<rparr> \<and>
   resp_json null_response = Inr JNull"
  by (simp add: call_defs null_response_def parseResponse_def contentType_of_def)

section \<open>Rejection of the network primitive\<close>

text \<open>
  Claim C9.  If the network primitive rejects the request the caller built, the client
  call rejects with the same reason, and there is no envelope the call returns.
\<close>

theorem transport_rejection:
  assumes "build_request domain config paths method bodyOrOptions options = Inr (url, init)"
      and "(case cfg_fetch config of None \<Rightarrow> global_fetch | Some f \<Rightarrow> f) url init = Inl reason"
  shows "createMethodCaller global_fetch domain config paths method bodyOrOptions options =
           Inl reason \<and>
         (\<forall>env. createMethodCaller global_fetch domain config paths method bodyOrOptions options
                  \<noteq> Inr env)"
  using assms by (simp add: createMethodCaller_def)

theorem transport_rejection_witness:
  "build_request ''http://localhost:3000'' plain_config [''users''] ''get'' JUndefined JUndefined =
     Inr (''http://localhost:3000/users'', [(''method'', JStr ''GET''), (''headers'', JObj [])]) \<and>
   offline_fetch ''http://localhost:3000/users'' [(''method'', JStr ''GET''), (''headers'', JObj [])] =
     Inl (JStr ''fetch failed'') \<and>
   createMethodCaller offline_fetch ''http://localhost:3000'' plain_config [''users''] ''get''
     JUndefined JUndefined = Inl (JStr ''fetch failed'')"
proof -
  have h: "build_request ''http://localhost:3000'' plain_config [''users''] ''get'' JUndefined
             JUndefined =
           Inr (''http://localhost:3000/users'',
                [(''method'', JStr ''GET''), (''headers'', JObj [])])"
    by code_simp
  have f: "(case cfg_fetch plain_config of None \<Rightarrow> offline_fetch | Some f \<Rightarrow> f)
             ''http://localhost:3000/users'' [(''method'', JStr ''GET''), (''headers'', JObj [])] =
           Inl (JStr ''fetch failed'')"
    by (simp add: plain_config_def offline_fetch_def)
  from transport_rejection [OF h f] show ?thesis
    using h by (simp add: offline_fetch_def)
qed

section \<open>The request body\<close>

lemma hasFiles_loop_iff:
  "hasFiles_loop es \<longleftrightarrow>
     (\<exists>(k, v) \<in> set es. isFile v \<or> (\<exists>e \<in> set (array_elems v). isFile e))"
proof (induction es)
  case Nil
  then show ?case by simp
next
  case (Cons e es)
  obtain k v where e: "e = (k, v)" by (cases e)
  have step: "hasFiles_loop ((k, v) # es) \<longleftrightarrow>
                (isFile v \<or> (\<exists>e \<in> set (array_elems v). isFile e)) \<or> hasFiles_loop es"
    by (cases v) (simp_all add: isArray_def array_elems_def list_ex_iff)
  show ?case
    unfolding e step Cons.IH by simp
qed

lemma string_props_no_file:
  "(k, v) \<in> set (zip ks (map (\<lambda>c. JStr [c]) s)) \<Longrightarrow> \<not> isFile v \<and> array_elems v = []"
  by (auto simp: set_zip isFile_def array_elems_def)

text \<open>The test of \<open>hasFiles\<close> is the narrow reading, no more.\<close>

lemma hasFiles_spec: "hasFiles body = spec_has_attachment body"
proof (cases body)
  case (JStr s)
  then show ?thesis
    by (auto simp: hasFiles_def spec_has_attachment_def typeof_def own_props_def
        dest: string_props_no_file)
qed (auto simp: hasFiles_def spec_has_attachment_def hasFiles_loop_iff typeof_def truthy_def
      own_props_def)

lemma formData_append_each_eq:
  "formData_append_each key vs fd = fd @ map (\<lambda>e. (key, spec_form_value e)) vs"
  by (induction vs arbitrary: fd) (simp_all add: formData_append_def spec_form_value_def)

lemma formData_loop_eq:
  "formData_loop es fd =
     fd @ concat (map (\<lambda>(k, v). case v of
                               JArr vs \<Rightarrow> map (\<lambda>e. (k, spec_form_value e)) vs
                             | _ \<Rightarrow> [(k, spec_form_value v)]) es)"
proof (induction es arbitrary: fd)
  case Nil
  then show ?case by simp
next
  case (Cons e es)
  obtain k v where e: "e = (k, v)" by (cases e)
  show ?case
    by (cases v)
       (simp_all add: e Cons.IH isArray_def array_elems_def formData_append_each_eq
          formData_append_def spec_form_value_def)
qed

lemma attachment_not_nullish: "spec_has_attachment body \<Longrightarrow> body \<noteq> JUndefined \<and> body \<noteq> JNull"
  by (auto simp: spec_has_attachment_def own_props_def)

text \<open>Without an \<open>onRequest\<close> hook the network primitive is called with the init as
  \<open>build_init\<close> leaves it; with a hook, that init is the hook's second argument.\<close>

lemma build_request_no_hook:
  assumes "cfg_onRequest config = None" and "resolveHeaders (cfg_headers config) = Inr configHeaders"
  shows "\<exists>url. build_request domain config paths method bodyOrOptions options =
           Inr (url, build_init config method configHeaders bodyOrOptions options)"
  using assms by (simp add: build_request_def Let_def)

text \<open>
  Claim C7, as amended.  For every verb other than \<open>get\<close> and \<open>head\<close> and every body
  that has a Blob as the value of one of its own properties, or as an element of an array
  that is the value of one of its own properties, the init's body is a multipart form
  with one entry per key or array element, and the headers are those of the init without
  a body: the executor sets no content type.  This is the init the network primitive
  receives when no \<open>onRequest\<close> hook is configured.  An object in which no Blob lies
  at one of these two places, a Blob that lies deeper or none at all, is sent as its JSON
  text with the content type application/json.
\<close>

theorem multipart_body:
  assumes "method \<noteq> ''get''" and "method \<noteq> ''head''" and "spec_has_attachment body"
  shows "build_init config method configHeaders body options =
           obj_set (base_init config method configHeaders options) ''body''
             (JFormData (spec_form_entries body)) \<and>
         obj_get (build_init config method configHeaders body options) ''headers'' =
           obj_get (base_init config method configHeaders options) ''headers'' \<and>
         (cfg_onRequest config = None \<and> resolveHeaders (cfg_headers config) = Inr configHeaders \<longrightarrow>
            (\<exists>url. build_request domain config paths method body options =
               Inr (url, build_init config method configHeaders body options))) \<and>
         (\<forall>other.
            \<not> spec_has_attachment other \<and> typeof other = ''object'' \<and> other \<noteq> JNull \<longrightarrow>
              build_init config method configHeaders other options =
                obj_set
                  (obj_set (base_init config method configHeaders options) ''headers''
                     (JObj (obj_set (own_props (obj_get (base_init config method configHeaders
                                                          options) ''headers''))
                               ''content-type'' (JStr ''application/json''))))
                  ''body'' (JSON_stringify other))"
proof (intro conjI allI impI)
  show formed: "build_init config method configHeaders body options =
           obj_set (base_init config method configHeaders options) ''body''
             (JFormData (spec_form_entries body))"
    using assms attachment_not_nullish [OF assms(3)]
    by (simp add: build_init_def encode_body_def hasFiles_spec formData_loop_eq
        spec_form_entries_def)
  show "obj_get (build_init config method configHeaders body options) ''headers'' =
           obj_get (base_init config method configHeaders options) ''headers''"
    unfolding formed by (simp add: obj_get_obj_set)
next
  assume "cfg_onRequest config = None \<and> resolveHeaders (cfg_headers config) = Inr configHeaders"
  then show "\<exists>url. build_request domain config paths method body options =
               Inr (url, build_init config method configHeaders body options)"
    by (simp add: build_request_no_hook)
next
  fix other
  assume o: "\<not> spec_has_attachment other \<and> typeof other = ''object'' \<and> other \<noteq> JNull"
  then have "other \<noteq> JUndefined"
    by (auto simp: typeof_def)
  with o assms(1,2) show "build_init config method configHeaders other options =
                obj_set
                  (obj_set (base_init config method configHeaders options) ''headers''
                     (JObj (obj_set (own_props (obj_get (base_init config method configHeaders
                                                          options) ''headers''))
                               ''content-type'' (JStr ''application/json''))))
                  ''body'' (JSON_stringify other)"
    by (simp add: build_init_def encode_body_def hasFiles_spec)
qed

theorem multipart_body_witness:
  "spec_has_attachment upload_body \<and>
   build_init plain_config ''post'' (JObj []) upload_body JUndefined =
     [(''method'', JStr ''POST''), (''headers'', JObj []),
      (''body'', JFormData [(''title'', JStr ''cat''), (''files'', JBlob ''png''),
                            (''files'', JBlob ''jpg'')])] \<and>
   obj_get (build_init plain_config ''post'' (JObj []) upload_body JUndefined) ''headers'' = JObj [] \<and>
   build_request ''http://localhost:3000'' plain_config [''upload''] ''post'' upload_body JUndefined =
     Inr (''http://localhost:3000/upload'',
          build_init plain_config ''post'' (JObj []) upload_body JUndefined) \<and>
   has_blob_leaf nested_object_body \<and>
   build_init plain_config ''post'' (JObj []) nested_object_body JUndefined =
     [(''method'', JStr ''POST''),
      (''headers'', JObj [(''content-type'', JStr ''application/json'')]),
      (''body'', JSON_stringify nested_object_body)]"
proof -
  have a: "spec_has_attachment upload_body"
    by code_simp
  have m: "''post'' \<noteq> ''get''" "''post'' \<noteq> ''head''"
    by simp_all
  have b: "base_init plain_config ''post'' (JObj []) JUndefined =
             [(''method'', JStr ''POST''), (''headers'', JObj [])]"
    by code_simp
  have e: "spec_form_entries upload_body =
             [(''title'', JStr ''cat''), (''files'', JBlob ''png''), (''files'', JBlob ''jpg'')]"
    by (simp add: spec_form_entries_def upload_body_def own_props_def spec_form_value_def
        isFile_def)
  have c: "cfg_onRequest plain_config = None \<and>
           resolveHeaders (cfg_headers plain_config) = Inr (JObj [])"
    by (simp add: plain_config_def resolveHeaders_def truthy_def)
  have u: "\<And>url init. build_request ''http://localhost:3000'' plain_config [''upload''] ''post''
             upload_body JUndefined = Inr (url, init) \<Longrightarrow> url = ''http://localhost:3000/upload''"
    by (simp add: build_request_def plain_config_def resolveHeaders_def truthy_def opt_prop_def)
  have l: "has_blob_leaf nested_object_body"
    by code_simp
  have o: "\<not> spec_has_attachment nested_object_body \<and> typeof nested_object_body = ''object'' \<and>
           nested_object_body \<noteq> JNull"
    by code_simp
  note t = multipart_body [OF m a, of plain_config "JObj []" JUndefined "''http://localhost:3000''"
      "[''upload'']"]
  have formed: "build_init plain_config ''post'' (JObj []) upload_body JUndefined =
                  obj_set (base_init plain_config ''post'' (JObj []) JUndefined) ''body''
                    (JFormData (spec_form_entries upload_body))"
    by (rule t [THEN conjunct1])
  have hs: "obj_get (build_init plain_config ''post'' (JObj []) upload_body JUndefined) ''headers'' =
              obj_get (base_init plain_config ''post'' (JObj []) JUndefined) ''headers''"
    by (rule t [THEN conjunct2, THEN conjunct1])
  have "\<exists>url. build_request ''http://localhost:3000'' plain_config [''upload''] ''post''
                 upload_body JUndefined =
               Inr (url, build_init plain_config ''post'' (JObj []) upload_body JUndefined)"
    by (rule t [THEN conjunct2, THEN conjunct2, THEN conjunct1, THEN mp, OF c])
  then obtain url where
    sent: "build_request ''http://localhost:3000'' plain_config [''upload''] ''post''
             upload_body JUndefined =
           Inr (url, build_init plain_config ''post'' (JObj []) upload_body JUndefined)"
    ..
  from u [OF sent] have "url = ''http://localhost:3000/upload''" .
  with sent have sent': "build_request ''http://localhost:3000'' plain_config [''upload''] ''post''
             upload_body JUndefined =
           Inr (''http://localhost:3000/upload'',
                build_init plain_config ''post'' (JObj []) upload_body JUndefined)"
    by (simp only:)
  have deeper: "build_init plain_config ''post'' (JObj []) nested_object_body JUndefined =
                  obj_set
                    (obj_set (base_init plain_config ''post'' (JObj []) JUndefined) ''headers''
                       (JObj (obj_set (own_props (obj_get (base_init plain_config ''post''
                                                            (JObj []) JUndefined) ''headers''))
                                 ''content-type'' (JStr ''application/json''))))
                    ''body'' (JSON_stringify nested_object_body)"
    by (rule t [THEN conjunct2, THEN conjunct2, THEN conjunct2, THEN spec, THEN mp, OF o])
  have formed': "build_init plain_config ''post'' (JObj []) upload_body JUndefined =
                   [(''method'', JStr ''POST''), (''headers'', JObj []),
                    (''body'', JFormData [(''title'', JStr ''cat''), (''files'', JBlob ''png''),
                                          (''files'', JBlob ''jpg'')])]"
    unfolding formed b e by simp
  have hs': "obj_get (build_init plain_config ''post'' (JObj []) upload_body JUndefined)
               ''headers'' = JObj []"
    unfolding hs b by (simp add: obj_get_def)
  have deeper': "build_init plain_config ''post'' (JObj []) nested_object_body JUndefined =
                   [(''method'', JStr ''POST''),
                    (''headers'', JObj [(''content-type'', JStr ''application/json'')]),
                    (''body'', JSON_stringify nested_object_body)]"
    unfolding deeper b by (simp add: obj_get_def own_props_def)
  from a formed' hs' sent' l deeper' show ?thesis
    by (simp only: simp_thms)
qed

text \<open>
  Claim C7 as stated fails for a Blob that lies deeper: inside an array that is itself
  an array element, or inside a nested object.  Both bodies have a Blob leaf, and both
  requests carry the JSON text of the body with the content type application/json.
\<close>

theorem nested_attachment_counterexample:
  "has_blob_leaf nested_array_body \<and>
   build_request ''http://localhost:3000'' plain_config [''upload''] ''post'' nested_array_body
       JUndefined =
     Inr (''http://localhost:3000/upload'',
          [(''method'', JStr ''POST''),
           (''headers'', JObj [(''content-type'', JStr ''application/json'')]),
           (''body'', JSON_stringify nested_array_body)]) \<and>
   has_blob_leaf nested_object_body \<and>
   build_request ''http://localhost:3000'' plain_config [''upload''] ''post'' nested_object_body
       JUndefined =
     Inr (''http://localhost:3000/upload'',
          [(''method'', JStr ''POST''),
           (''headers'', JObj [(''content-type'', JStr ''application/json'')]),
           (''body'', JSON_stringify nested_object_body)])"
  by code_simp

text \<open>
  Claim C8, as amended.  For \<open>get\<close> and \<open>head\<close> the first argument is the options
  object, the second is not read, and the body block is skipped: the init is the method
  and the merged headers, overlaid by the configuration's \<open>fetchOptions\<close> and the
  options' \<open>fetch\<close>.  So the init has a body only if one of these two overlays has one,
  and its headers are the configuration's headers merged with the options' headers unless
  an overlay replaces them.  For every other verb the first argument is the body and the
  second the options.  This is the init the network primitive receives when no
  \<open>onRequest\<close> hook is configured.
\<close>

theorem get_head_first_argument:
  "build_init config method configHeaders first second =
     (if method = ''get'' \<or> method = ''head'' then base_init config method configHeaders first
      else encode_body False first (base_init config method configHeaders second)) \<and>
   ((method = ''get'' \<or> method = ''head'') \<and>
    ''body'' \<notin> fst ` set (own_props (cfg_fetchOptions config)) \<and>
    ''body'' \<notin> fst ` set (own_props (opt_prop first ''fetch'')) \<longrightarrow>
      ''body'' \<notin> fst ` set (build_init config method configHeaders first second)) \<and>
   ((method = ''get'' \<or> method = ''head'') \<and>
    ''headers'' \<notin> fst ` set (own_props (cfg_fetchOptions config)) \<and>
    ''headers'' \<notin> fst ` set (own_props (opt_prop first ''fetch'')) \<longrightarrow>
      obj_get (build_init config method configHeaders first second) ''headers'' =
        JObj (Object_assign (own_props configHeaders) (opt_prop first ''headers''))) \<and>
   (cfg_onRequest config = None \<and> resolveHeaders (cfg_headers config) = Inr configHeaders \<longrightarrow>
      (\<exists>url. build_request domain config paths method first second =
         Inr (url, build_init config method configHeaders first second)))"
proof (intro conjI impI)
  show "build_init config method configHeaders first second =
     (if method = ''get'' \<or> method = ''head'' then base_init config method configHeaders first
      else encode_body False first (base_init config method configHeaders second))"
    by (simp add: build_init_def encode_body_def)
next
  assume "(method = ''get'' \<or> method = ''head'') \<and>
    ''body'' \<notin> fst ` set (own_props (cfg_fetchOptions config)) \<and>
    ''body'' \<notin> fst ` set (own_props (opt_prop first ''fetch''))"
  then show "''body'' \<notin> fst ` set (build_init config method configHeaders first second)"
    by (auto simp: build_init_def encode_body_def base_init_def keys_Object_assign)
next
  assume "(method = ''get'' \<or> method = ''head'') \<and>
    ''headers'' \<notin> fst ` set (own_props (cfg_fetchOptions config)) \<and>
    ''headers'' \<notin> fst ` set (own_props (opt_prop first ''fetch''))"
  then show "obj_get (build_init config method configHeaders first second) ''headers'' =
        JObj (Object_assign (own_props configHeaders) (opt_prop first ''headers''))"
    by (auto simp: build_init_def encode_body_def base_init_def obj_get_def
        map_of_Object_assign_other)
next
  assume "cfg_onRequest config = None \<and> resolveHeaders (cfg_headers config) = Inr configHeaders"
  then show "\<exists>url. build_request domain config paths method first second =
         Inr (url, build_init config method configHeaders first second)"
    by (simp add: build_request_no_hook)
qed

theorem get_head_first_argument_witness:
  "build_init plain_config ''get'' (JObj []) query_options (JStr ''ignored'') =
     [(''method'', JStr ''GET''), (''headers'', JObj [])] \<and>
   ''body'' \<notin> fst ` set (build_init plain_config ''get'' (JObj []) query_options (JStr ''ignored'')) \<and>
   obj_get (build_init plain_config ''get'' (JObj []) query_options (JStr ''ignored'')) ''headers'' =
     JObj [] \<and>
   build_request ''http://localhost:3000'' plain_config [''users''] ''get'' query_options
       (JStr ''ignored'') =
     Inr (''http://localhost:3000/users?limit=10&offset=0'',
          build_init plain_config ''get'' (JObj []) query_options (JStr ''ignored''))"
proof -
  have p: "(''get'' = ''get'' \<or> ''get'' = ''head'') \<and>
           ''body'' \<notin> fst ` set (own_props (cfg_fetchOptions plain_config)) \<and>
           ''body'' \<notin> fst ` set (own_props (opt_prop query_options ''fetch''))"
    by (simp add: plain_config_def own_props_def opt_prop_def get_prop_def obj_get_def
        query_options_def)
  have q: "(''get'' = ''get'' \<or> ''get'' = ''head'') \<and>
           ''headers'' \<notin> fst ` set (own_props (cfg_fetchOptions plain_config)) \<and>
           ''headers'' \<notin> fst ` set (own_props (opt_prop query_options ''fetch''))"
    by (simp add: plain_config_def own_props_def opt_prop_def get_prop_def obj_get_def
        query_options_def)
  have c: "cfg_onRequest plain_config = None \<and>
           resolveHeaders (cfg_headers plain_config) = Inr (JObj [])"
    by (simp add: plain_config_def resolveHeaders_def truthy_def)
  have b: "base_init plain_config ''get'' (JObj []) query_options =
             [(''method'', JStr ''GET''), (''headers'', JObj [])]"
    by code_simp
  have h: "Object_assign (own_props (JObj [])) (opt_prop query_options ''headers'') = []"
    by code_simp
  have r: "build_request ''http://localhost:3000'' plain_config [''users''] ''get'' query_options
             (JStr ''ignored'') =
           Inr (''http://localhost:3000/users?limit=10&offset=0'',
                [(''method'', JStr ''GET''), (''headers'', JObj [])])"
    by code_simp
  note t = get_head_first_argument [of plain_config "''get''" "JObj []" query_options
      "JStr ''ignored''" "''http://localhost:3000''" "[''users'']"]
  from t have i: "build_init plain_config ''get'' (JObj []) query_options (JStr ''ignored'') =
                    base_init plain_config ''get'' (JObj []) query_options"
    by simp
  from t p have nb: "''body'' \<notin> fst ` set (build_init plain_config ''get'' (JObj []) query_options
                                              (JStr ''ignored''))"
    by blast
  from t q have hs: "obj_get (build_init plain_config ''get'' (JObj []) query_options
                                (JStr ''ignored'')) ''headers'' =
                     JObj (Object_assign (own_props (JObj [])) (opt_prop query_options ''headers''))"
    by blast
  from t c obtain url where
    sent: "build_request ''http://localhost:3000'' plain_config [''users''] ''get'' query_options
             (JStr ''ignored'') =
           Inr (url, build_init plain_config ''get'' (JObj []) query_options (JStr ''ignored''))"
    by blast
  from sent r have "url = ''http://localhost:3000/users?limit=10&offset=0''"
    by (simp only: sum.inject prod.inject)
  with sent i b nb hs h show ?thesis
    by (simp only: simp_thms)
qed

text \<open>
  Claim C8 as stated fails where the first argument of a \<open>get\<close> carries them itself:
  with \<open>fetch: {body: "x"}\<close> and \<open>headers: {"content-type": "text/plain"}\<close> in the
  first argument, the request the network primitive receives has that body and that
  content type.
\<close>

theorem get_override_counterexample:
  "build_request ''http://localhost:3000'' plain_config [''users''] ''get'' override_options
       JUndefined =
     Inr (''http://localhost:3000/users'',
          [(''method'', JStr ''GET''),
           (''headers'', JObj [(''content-type'', JStr ''text/plain'')]),
           (''body'', JStr ''x'')])"
  by code_simp

text \<open>
  Claim C10, as amended.  For every verb other than \<open>get\<close> and \<open>head\<close> and every body
  that is neither null nor undefined and in which \<open>hasFiles\<close> finds no Blob: the headers
  of the init are the headers merged from the configuration and the call, with the key
  \<open>content-type\<close>, in exactly this spelling, set afterwards, to application/json when
  the body is an object and to text/plain otherwise, whatever value the configuration or
  the call supplied under that key; every other key of the merged headers, another
  spelling of the header name among them, keeps its value beside it.  The body is the JSON
  text, or the string, of the body.  This is the init the network primitive receives when
  no \<open>onRequest\<close> hook is configured.
\<close>

theorem body_content_type:
  assumes "method \<noteq> ''get''" and "method \<noteq> ''head''"
      and "body \<noteq> JUndefined" and "body \<noteq> JNull" and "\<not> hasFiles body"
  shows "get_prop (obj_get (build_init config method configHeaders body options) ''headers'')
           ''content-type'' =
           JStr (if typeof body = ''object'' then ''application/json'' else ''text/plain'') \<and>
         obj_get (build_init config method configHeaders body options) ''headers'' =
           JObj (obj_set (own_props (obj_get (base_init config method configHeaders options)
                                       ''headers''))
                   ''content-type''
                   (JStr (if typeof body = ''object'' then ''application/json''
                          else ''text/plain''))) \<and>
         (\<forall>k. k \<noteq> ''content-type'' \<longrightarrow>
            get_prop (obj_get (build_init config method configHeaders body options) ''headers'') k =
              obj_get (own_props (obj_get (base_init config method configHeaders options)
                                    ''headers'')) k) \<and>
         obj_get (build_init config method configHeaders body options) ''body'' =
           (if typeof body = ''object'' then JSON_stringify body else JStr (js_String body)) \<and>
         (cfg_onRequest config = None \<and> resolveHeaders (cfg_headers config) = Inr configHeaders \<longrightarrow>
            (\<exists>url. build_request domain config paths method body options =
               Inr (url, build_init config method configHeaders body options)))"
proof -
  have sent: "cfg_onRequest config = None \<and> resolveHeaders (cfg_headers config) = Inr configHeaders \<longrightarrow>
            (\<exists>url. build_request domain config paths method body options =
               Inr (url, build_init config method configHeaders body options))"
    by (simp add: build_request_no_hook)
  have "get_prop (obj_get (build_init config method configHeaders body options) ''headers'')
           ''content-type'' =
           JStr (if typeof body = ''object'' then ''application/json'' else ''text/plain'') \<and>
         obj_get (build_init config method configHeaders body options) ''headers'' =
           JObj (obj_set (own_props (obj_get (base_init config method configHeaders options)
                                       ''headers''))
                   ''content-type''
                   (JStr (if typeof body = ''object'' then ''application/json''
                          else ''text/plain''))) \<and>
         (\<forall>k. k \<noteq> ''content-type'' \<longrightarrow>
            get_prop (obj_get (build_init config method configHeaders body options) ''headers'') k =
              obj_get (own_props (obj_get (base_init config method configHeaders options)
                                    ''headers'')) k) \<and>
         obj_get (build_init config method configHeaders body options) ''body'' =
           (if typeof body = ''object'' then JSON_stringify body else JStr (js_String body))"
    using assms
    by (simp add: build_init_def encode_body_def obj_get_obj_set get_prop_def)
  with sent show ?thesis
    by blast
qed

theorem body_content_type_witness:
  "\<not> hasFiles (JObj [(''name'', JStr ''John'')]) \<and>
   obj_get (base_init plain_config ''post'' xml_headers csv_options) ''headers'' =
     JObj [(''content-type'', JStr ''text/csv''), (''authorization'', JStr ''Bearer token'')] \<and>
   obj_get (build_init plain_config ''post'' xml_headers (JObj [(''name'', JStr ''John'')])
              csv_options) ''headers'' =
     JObj [(''content-type'', JStr ''application/json''), (''authorization'', JStr ''Bearer token'')] \<and>
   get_prop (obj_get (build_init plain_config ''post'' xml_headers (JObj [(''name'', JStr ''John'')])
                        csv_options) ''headers'') ''content-type'' =
     JStr ''application/json'' \<and>
   get_prop (obj_get (build_init plain_config ''post'' xml_headers (JObj [(''name'', JStr ''John'')])
                        csv_options) ''headers'') ''authorization'' =
     JStr ''Bearer token'' \<and>
   build_request ''http://localhost:3000'' (plain_config\<lparr>cfg_headers := HeadersValue xml_headers\<rparr>)
       [''users''] ''post'' (JObj [(''name'', JStr ''John'')]) csv_options =
     Inr (''http://localhost:3000/users'',
          build_init (plain_config\<lparr>cfg_headers := HeadersValue xml_headers\<rparr>) ''post'' xml_headers
            (JObj [(''name'', JStr ''John'')]) csv_options)"
proof -
  let ?body = "JObj [(''name'', JStr ''John'')]"
  let ?config = "plain_config\<lparr>cfg_headers := HeadersValue xml_headers\<rparr>"
  have m: "''post'' \<noteq> ''get''" "''post'' \<noteq> ''head''"
    by simp_all
  have n: "?body \<noteq> JUndefined" "?body \<noteq> JNull"
    by simp_all
  have f: "\<not> hasFiles ?body"
    by code_simp
  have t: "typeof ?body = ''object''"
    by (simp add: typeof_def)
  have b: "obj_get (base_init plain_config ''post'' xml_headers csv_options) ''headers'' =
             JObj [(''content-type'', JStr ''text/csv''), (''authorization'', JStr ''Bearer token'')]"
    by code_simp
  have c: "cfg_onRequest ?config = None \<and> resolveHeaders (cfg_headers ?config) = Inr xml_headers"
    by (simp add: plain_config_def resolveHeaders_def truthy_def xml_headers_def)
  have k: "''authorization'' \<noteq> ''content-type''"
    by simp
  have u: "\<And>url init. build_request ''http://localhost:3000'' ?config [''users''] ''post''
             ?body csv_options = Inr (url, init) \<Longrightarrow> url = ''http://localhost:3000/users''"
    by (simp add: build_request_def plain_config_def resolveHeaders_def truthy_def opt_prop_def
        xml_headers_def csv_options_def get_prop_def obj_get_def)
  note t1 = body_content_type [OF m n f, of plain_config xml_headers csv_options
      "''http://localhost:3000''" "[''users'']", unfolded t if_P [OF refl]]
  note t2 = body_content_type [OF m n f, of ?config xml_headers csv_options
      "''http://localhost:3000''" "[''users'']"]
  have ct: "get_prop (obj_get (build_init plain_config ''post'' xml_headers ?body
                        csv_options) ''headers'') ''content-type'' =
            JStr ''application/json''"
    by (rule t1 [THEN conjunct1])
  have hs: "obj_get (build_init plain_config ''post'' xml_headers ?body csv_options)
              ''headers'' =
            JObj (obj_set (own_props (obj_get (base_init plain_config ''post'' xml_headers
                                                csv_options) ''headers''))
                    ''content-type'' (JStr ''application/json''))"
    by (rule t1 [THEN conjunct2, THEN conjunct1])
  have au: "get_prop (obj_get (build_init plain_config ''post'' xml_headers ?body
                          csv_options) ''headers'') ''authorization'' =
            obj_get (own_props (obj_get (base_init plain_config ''post'' xml_headers
                                           csv_options) ''headers'')) ''authorization''"
    by (rule t1 [THEN conjunct2, THEN conjunct2, THEN conjunct1, THEN spec, THEN mp, OF k])
  have "\<exists>url. build_request ''http://localhost:3000'' ?config [''users''] ''post'' ?body
                 csv_options =
               Inr (url, build_init ?config ''post'' xml_headers ?body csv_options)"
    by (rule t2 [THEN conjunct2, THEN conjunct2, THEN conjunct2, THEN conjunct2, THEN mp,
          OF c])
  then obtain url where
    sent: "build_request ''http://localhost:3000'' ?config [''users''] ''post'' ?body csv_options =
             Inr (url, build_init ?config ''post'' xml_headers ?body csv_options)"
    ..
  from u [OF sent] have "url = ''http://localhost:3000/users''" .
  with sent have sent': "build_request ''http://localhost:3000'' ?config [''users''] ''post'' ?body
                           csv_options =
             Inr (''http://localhost:3000/users'',
                  build_init ?config ''post'' xml_headers ?body csv_options)"
    by (simp only:)
  have hs': "obj_get (build_init plain_config ''post'' xml_headers ?body csv_options) ''headers'' =
               JObj [(''content-type'', JStr ''application/json''),
                     (''authorization'', JStr ''Bearer token'')]"
    unfolding hs b by (simp add: own_props_def)
  have au': "get_prop (obj_get (build_init plain_config ''post'' xml_headers ?body csv_options)
                         ''headers'') ''authorization'' = JStr ''Bearer token''"
    unfolding au b by (simp add: own_props_def obj_get_def)
  from f b hs' ct au' sent' show ?thesis
    by (simp only: simp_thms)
qed

text \<open>
  Claim C10 as stated fails for a content type supplied under another spelling of the
  header name: with the per-call headers \<open>{"Content-Type": "text/xml"}\<close> and an object
  body, the headers the network primitive receives still carry the supplied entry, next
  to the \<open>content-type\<close> the executor adds; it is not replaced.
\<close>

theorem capitalised_content_type_counterexample:
  "build_request ''http://localhost:3000'' plain_config [''users''] ''post''
       (JObj [(''name'', JStr ''John'')]) capital_options =
     Inr (''http://localhost:3000/users'',
          [(''method'', JStr ''POST''),
           (''headers'', JObj [(''Content-Type'', JStr ''text/xml''),
                              (''content-type'', JStr ''application/json'')]),
           (''body'', JSON_stringify (JObj [(''name'', JStr ''John'')]))])"
  by code_simp

section \<open>The context pipeline\<close>



text \<open>A route registered before the first \<open>decorate\<close> call: the closure's decorators
  object is its own empty one, and a decorator added afterwards is not copied.\<close>

lemma late_decorator_not_copied:
  "wrapHandler kito_new role_handler (kito_decorate kito_new ''role'' (JStr ''admin'')) [] =
     Inr ([(''store'', JObj [])], NotWritten)"
  by (simp add: wrapHandler_def build_context_def seed_context_def captured_decorators_def
      kito_new_def kito_decorate_def Object_assign_def own_props_def role_handler_def
      obj_get_def send_result_def)

text \<open>A route registered after the first \<open>decorate\<close> call: the closure holds the
  instance's decorators object, and also a decorator added afterwards is copied.\<close>

lemma early_decorator_object_shared:
  "wrapHandler decorated_app role_handler (kito_decorate decorated_app ''role'' (JStr ''admin''))
       [] =
     Inr ([(''store'', JObj [(''counter'', JNum 0)]), (''db'', JStr ''pg''),
           (''role'', JStr ''admin'')],
          ResSend ''admin'')"
  by (simp add: wrapHandler_def build_context_def seed_context_def captured_decorators_def
      decorated_app_def host_app_def kito_state_def kito_new_def kito_decorate_def
      Object_assign_def own_props_def role_handler_def obj_get_def send_result_def typeof_def)



section \<open>Mounting\<close>

text \<open>
  Claim C5, as amended.  \<open>use\<close> appends the mounted unit's derive functions after the
  host's, and its resolve functions likewise; the merged store has the keys of both
  stores, with the mounted unit's value for every key the mounted unit has (the mounted
  unit wins a collision) and the host's value for every other key.
\<close>

theorem use_merges:
  assumes "distinct (map fst (singletonStore plugin))"
  shows "deriveFunctions (kito_use app plugin) = deriveFunctions app @ deriveFunctions plugin \<and>
         resolveFunctions (kito_use app plugin) = resolveFunctions app @ resolveFunctions plugin \<and>
         fst ` set (singletonStore (kito_use app plugin)) =
           fst ` set (singletonStore app) \<union> fst ` set (singletonStore plugin) \<and>
         (\<forall>k. obj_get (singletonStore (kito_use app plugin)) k =
                (if k \<in> fst ` set (singletonStore plugin) then obj_get (singletonStore plugin) k
                 else obj_get (singletonStore app) k))"
  using assms
  by (simp add: kito_use_def Object_assign_def own_props_def keys_assign_all obj_get_assign_all)

theorem use_merges_witness:
  "distinct (map fst (singletonStore sessions_plugin)) \<and>
   singletonStore (kito_use host_app sessions_plugin) =
     [(''counter'', JNum 0), (''sessions'', JObj [])] \<and>
   fst ` set (singletonStore (kito_use host_app sessions_plugin)) = {''counter'', ''sessions''} \<and>
   obj_get (singletonStore (kito_use host_app sessions_plugin)) ''sessions'' = JObj [] \<and>
   obj_get (singletonStore (kito_use host_app sessions_plugin)) ''counter'' = JNum 0"
proof -
  have d: "distinct (map fst (singletonStore sessions_plugin))"
    by (simp add: sessions_plugin_def kito_state_def kito_new_def)
  have s: "singletonStore (kito_use host_app sessions_plugin) =
             [(''counter'', JNum 0), (''sessions'', JObj [])]"
    by (simp add: kito_use_def host_app_def sessions_plugin_def kito_state_def kito_new_def
        Object_assign_def own_props_def)
  from use_merges [OF d, of host_app] show ?thesis
    using d s by (simp add: obj_get_def)
qed

text \<open>
  Claim C5 as stated fails on a collision: a host whose store has \<open>counter = 0\<close>
  mounting a unit whose store has \<open>counter = 5\<close> ends with \<open>counter = 5\<close>, the mounted
  unit's value.
\<close>

theorem use_host_wins_counterexample:
  "obj_get (singletonStore host_app) ''counter'' = JNum 0 \<and>
   obj_get (singletonStore counter_plugin) ''counter'' = JNum 5 \<and>
   obj_get (singletonStore (kito_use host_app counter_plugin)) ''counter'' = JNum 5"
  by (simp add: kito_use_def host_app_def counter_plugin_def kito_state_def kito_new_def
      Object_assign_def own_props_def obj_get_def)

end
